theory Spec2Isabelle
  imports Complex_Main "HOL-Library.Sublist"
begin

section \<open>Python values\<close>

text \<open>
  A Python \<open>str\<close> is a sequence of Unicode code points, so it is modelled as a list of
  naturals; \<open>u\<close> turns an ASCII literal of the source into that representation.
\<close>

type_synonym pystr = "nat list"

definition u :: "string \<Rightarrow> pystr" where
  "u s = map of_char s"

text \<open>
  The values \<open>json.loads\<close> produces and the handlers pass around. A finite double is kept
  as the rational it denotes; \<open>json.loads\<close> also accepts the infinities and NaN.
  A dictionary is an association list read with \<open>map_of\<close>; its keys are strings, as the
  keys of every parsed JSON object are.
\<close>

datatype pyfloat = Finite rat | Inf bool | NaN

datatype pyval =
    PNone
  | PBool bool
  | PInt int
  | PFloat pyfloat
  | PStr pystr
  | PList "pyval list"
  | PDict "(pystr \<times> pyval) list"

text \<open>An exception: its class and what \<open>str(e)\<close> gives.\<close>

datatype exn = Exn (exn_class: string) (exn_str: pystr)

text \<open>Python's truth value test, as \<open>not x\<close> applies it.\<close>

fun truthy :: "pyval \<Rightarrow> bool" where
  "truthy PNone = False"
| "truthy (PBool b) = b"
| "truthy (PInt i) = (i \<noteq> 0)"
| "truthy (PFloat f) = (f \<noteq> Finite 0)"
| "truthy (PStr s) = (s \<noteq> [])"
| "truthy (PList xs) = (xs \<noteq> [])"
| "truthy (PDict kvs) = (kvs \<noteq> [])"

fun type_name :: "pyval \<Rightarrow> string" where
  "type_name PNone = ''NoneType''"
| "type_name (PBool b) = ''bool''"
| "type_name (PInt i) = ''int''"
| "type_name (PFloat f) = ''float''"
| "type_name (PStr s) = ''str''"
| "type_name (PList xs) = ''list''"
| "type_name (PDict kvs) = ''dict''"

text \<open>The messages of the built-in errors put names between apostrophes (code point 39).\<close>

definition quoted :: "string \<Rightarrow> pystr" where
  "quoted s = [39] @ u s @ [39]"

definition attribute_error :: "pyval \<Rightarrow> string \<Rightarrow> exn" where
  "attribute_error v attr =
     Exn ''AttributeError''
       (quoted (type_name v) @ u '' object has no attribute '' @ quoted attr)"

definition not_subscriptable :: "pyval \<Rightarrow> exn" where
  "not_subscriptable v =
     Exn ''TypeError'' (quoted (type_name v) @ u '' object is not subscriptable'')"

text \<open>\<open>d.get(key, default)\<close>: defined on dictionaries only; anything else has no such attribute.\<close>

fun dict_get :: "pyval \<Rightarrow> pystr \<Rightarrow> pyval \<Rightarrow> exn + pyval" where
  "dict_get (PDict kvs) key dflt =
     Inr (case map_of kvs key of None \<Rightarrow> dflt | Some v \<Rightarrow> v)"
| "dict_get v key dflt = Inl (attribute_error v ''get'')"

text \<open>\<open>x[0]\<close>. No key of a parsed JSON object equals the integer 0.\<close>

fun subscript0 :: "pyval \<Rightarrow> exn + pyval" where
  "subscript0 (PList []) = Inl (Exn ''IndexError'' (u ''list index out of range''))"
| "subscript0 (PList (x # xs)) = Inr x"
| "subscript0 (PStr []) = Inl (Exn ''IndexError'' (u ''string index out of range''))"
| "subscript0 (PStr (c # cs)) = Inr (PStr [c])"
| "subscript0 (PDict kvs) = Inl (Exn ''KeyError'' (u ''0''))"
| "subscript0 v = Inl (not_subscriptable v)"

text \<open>
  \<open>str.strip()\<close> with no argument removes leading and trailing whitespace, where
  whitespace is what \<open>str.isspace\<close> accepts.
\<close>

definition isspace :: "nat \<Rightarrow> bool" where
  "isspace c =
     ((0x09 \<le> c \<and> c \<le> 0x0D) \<or> (0x1C \<le> c \<and> c \<le> 0x20) \<or> c = 0x85 \<or> c = 0xA0
      \<or> c = 0x1680 \<or> (0x2000 \<le> c \<and> c \<le> 0x200A) \<or> c = 0x2028 \<or> c = 0x2029
      \<or> c = 0x202F \<or> c = 0x205F \<or> c = 0x3000)"

definition strip :: "pystr \<Rightarrow> pystr" where
  "strip s = rev (dropWhile isspace (rev (dropWhile isspace s)))"

fun py_strip :: "pyval \<Rightarrow> exn + pyval" where
  "py_strip (PStr s) = Inr (PStr (strip s))"
| "py_strip v = Inl (attribute_error v ''strip'')"

text \<open>
  The library functions the handlers call and this repository does not define:
  \<open>json.loads\<close>, \<open>str\<close> on a value that is not a string (used by the f-strings),
  \<open>str.lower\<close>, and \<open>PyPDF2.PdfReader\<close>: given the bytes of a document it raises or
  yields the pages, each by what its \<open>extract_text()\<close> does.
\<close>

record py_env =
  json_loads :: "pyval \<Rightarrow> exn + pyval"
  py_str :: "pyval \<Rightarrow> pystr"
  py_lower :: "pystr \<Rightarrow> pystr"
  PdfReader :: "pystr \<Rightarrow> exn + (exn + pystr) list"

text \<open>A replacement field \<open>{v}\<close> of an f-string: a string is inserted as it is.\<close>

definition format_value :: "py_env \<Rightarrow> pyval \<Rightarrow> pystr" where
  "format_value env v = (case v of PStr s \<Rightarrow> s | _ \<Rightarrow> py_str env v)"

text \<open>
  A JSON body is kept as the value handed to \<open>json.dumps\<close> (or \<open>jsonify\<close>), not as the
  encoded text, so that its fields can be read back.
\<close>

datatype body_text = Text pystr | JsonDumps pyval

definition has_field :: "body_text \<Rightarrow> string \<Rightarrow> bool" where
  "has_field b k = (case b of JsonDumps (PDict kvs) \<Rightarrow> map_of kvs (u k) \<noteq> None | _ \<Rightarrow> False)"

definition field :: "body_text \<Rightarrow> string \<Rightarrow> pyval option" where
  "field b k = (case b of JsonDumps (PDict kvs) \<Rightarrow> map_of kvs (u k) | _ \<Rightarrow> None)"

section \<open>The function variant: \<open>lambda_function.py\<close>\<close>

record response =
  statusCode :: int
  headers :: "(pystr \<times> pystr) list"
  body :: body_text

record invoke_model_args =
  req_body :: body_text
  modelId :: pystr
  accept :: pystr
  contentType :: pystr

text \<open>
  The Bedrock client: \<open>invoke_model\<close> followed by \<open>response.get("body").read()\<close>. It
  yields the bytes read, or the exception raised on the way.
\<close>

type_synonym bedrock_client = "invoke_model_args \<Rightarrow> exn + pyval"

record lambda_env =
  py :: py_env
  boto3_client :: "exn + bedrock_client"

type_synonym event = "(pystr \<times> pyval) list"

definition event_get :: "event \<Rightarrow> string \<Rightarrow> pyval \<Rightarrow> pyval" where
  "event_get event k dflt = (case map_of event (u k) of None \<Rightarrow> dflt | Some v \<Rightarrow> v)"

definition cors_preflight_headers :: "(pystr \<times> pystr) list" where
  "cors_preflight_headers =
     [(u ''Access-Control-Allow-Origin'', u ''*''),
      (u ''Access-Control-Allow-Headers'', u ''Content-Type''),
      (u ''Access-Control-Allow-Methods'', u ''POST,OPTIONS'')]"

definition cors_json_headers :: "(pystr \<times> pystr) list" where
  "cors_json_headers =
     [(u ''Access-Control-Allow-Origin'', u ''*''),
      (u ''Content-Type'', u ''application/json'')]"

definition fallback_phrase :: string where
  \<open>fallback_phrase = ''I don't have enough information to answer this question''\<close>

definition prompt_data :: "py_env \<Rightarrow> pyval \<Rightarrow> pyval \<Rightarrow> pystr" where
  \<open>prompt_data env pdf_text question =
     u ''Answer the question based only on the information provided between ##.\<newline>''
     @ u ''Only answer the question if you can find relevant information in the context, otherwise, answer "''
     @ u fallback_phrase @ u ''".\<newline>#\<newline>''
     @ format_value env pdf_text
     @ u ''\<newline>#\<newline>\<newline>Question: ''
     @ format_value env question
     @ u ''\<newline>Answer:''\<close>

definition parameters :: pyval where
  "parameters =
     PDict [(u ''maxTokenCount'', PInt 512),
            (u ''stopSequences'', PList []),
            (u ''temperature'', PInt 0),
            (u ''topP'', PFloat (Finite (8106479329266893 / 9007199254740992)))]"

definition bedrock_body :: "py_env \<Rightarrow> pyval \<Rightarrow> pyval \<Rightarrow> body_text" where
  "bedrock_body env pdf_text question =
     JsonDumps (PDict [(u ''inputText'', PStr (prompt_data env pdf_text question)),
                       (u ''textGenerationConfig'', parameters)])"

definition invoke_args :: "py_env \<Rightarrow> pyval \<Rightarrow> pyval \<Rightarrow> invoke_model_args" where
  "invoke_args env pdf_text question =
     \<lparr>req_body = bedrock_body env pdf_text question,
      modelId = u ''amazon.titan-tg1-large'',
      accept = u ''application/json'',
      contentType = u ''application/json''\<rparr>"

text \<open>
  Lines 72 to 83: parse the bytes read, take \<open>results[0].outputText\<close>, strip it and build
  the 200 response. Every step may raise.
\<close>

definition answer_response :: "py_env \<Rightarrow> pyval \<Rightarrow> exn + response" where
  "answer_response env raw =
     (case json_loads env raw of Inl e \<Rightarrow> Inl e | Inr response_body \<Rightarrow>
      (case dict_get response_body (u ''results'') PNone of Inl e \<Rightarrow> Inl e | Inr results \<Rightarrow>
       (case subscript0 results of Inl e \<Rightarrow> Inl e | Inr result0 \<Rightarrow>
        (case dict_get result0 (u ''outputText'') PNone of Inl e \<Rightarrow> Inl e | Inr answer \<Rightarrow>
         (case py_strip answer of Inl e \<Rightarrow> Inl e | Inr stripped \<Rightarrow>
            Inr \<lparr>statusCode = 200, headers = cors_json_headers,
                 body = JsonDumps (PDict [(u ''answer'', stripped)])\<rparr>)))))"

text \<open>
  The body of the \<open>try\<close> block: its outcome (a response returned, or the exception
  raised) and the calls made to the Bedrock client, in order.
\<close>

definition lambda_try ::
  "py_env \<Rightarrow> bedrock_client \<Rightarrow> event \<Rightarrow> (exn + response) \<times> invoke_model_args list" where
  \<open>lambda_try env bedrock event =
     (case json_loads env (event_get event ''body'' (PStr (u ''{}''))) of
        Inl e \<Rightarrow> (Inl e, [])
      | Inr request_body \<Rightarrow>
     (case dict_get request_body (u ''context'') (PStr []) of
        Inl e \<Rightarrow> (Inl e, [])
      | Inr pdf_text \<Rightarrow>
     (case dict_get request_body (u ''question'') (PStr []) of
        Inl e \<Rightarrow> (Inl e, [])
      | Inr question \<Rightarrow>
        if \<not> truthy pdf_text \<or> \<not> truthy question then
          (Inr \<lparr>statusCode = 400, headers = cors_json_headers,
                body = JsonDumps (PDict [(u ''error'', PStr (u ''Missing context or question''))])\<rparr>,
           [])
        else
          (case bedrock (invoke_args env pdf_text question) of
             Inl e \<Rightarrow> (Inl e, [invoke_args env pdf_text question])
           | Inr raw \<Rightarrow> (answer_response env raw, [invoke_args env pdf_text question])))))\<close>

text \<open>
  The handler. The client is constructed first, outside the \<open>try\<close>: an exception there
  leaves the handler. Then the preflight check; then the \<open>try\<close> block, whose
  \<open>except Exception\<close> turns any exception into the 500 response.
\<close>

definition lambda_handler ::
  "lambda_env \<Rightarrow> event \<Rightarrow> (exn + response) \<times> invoke_model_args list" where
  "lambda_handler env event =
     (case boto3_client env of
        Inl e \<Rightarrow> (Inl e, [])
      | Inr bedrock \<Rightarrow>
          if event_get event ''httpMethod'' PNone = PStr (u ''OPTIONS'') then
            (Inr \<lparr>statusCode = 200, headers = cors_preflight_headers, body = Text (u '''')\<rparr>, [])
          else
            (case lambda_try (py env) bedrock event of
               (Inr resp, calls) \<Rightarrow> (Inr resp, calls)
             | (Inl e, calls) \<Rightarrow>
                 (Inr \<lparr>statusCode = 500, headers = cors_json_headers,
                       body = JsonDumps (PDict [(u ''error'', PStr (exn_str e))])\<rparr>,
                  calls)))"

section \<open>The process variant: \<open>app.py\<close>\<close>

datatype message = SystemMessage pystr | UserMessage pyval

record complete_args =
  model :: pyval
  messages :: "message list"
  temperature :: pyfloat
  max_tokens :: int

text \<open>
  The project client: \<open>inference.get_chat_completions_client()\<close>, \<open>complete\<close> and the
  read of \<open>response.choices[0].message.content\<close>. It yields that content, or the
  exception raised on the way.
\<close>

type_synonym ai_project_client = "complete_args \<Rightarrow> exn + pyval"

text \<open>The two module-level variables; both are \<open>None\<close> until initialisation succeeds.\<close>

record globals =
  project_client :: "ai_project_client option"
  phi4_deployment :: pyval

definition fallback_instruction :: string where
  \<open>fallback_instruction = ''If the context doesn't help, say so.''\<close>

definition system_prompt :: "py_env \<Rightarrow> pyval \<Rightarrow> pystr" where
  \<open>system_prompt env retrieved_doc =
     u ''You are Phi-4, helpful fitness AI.\<newline>''
     @ u ''We have some context from the user's knowledge base: \<newline>''
     @ format_value env retrieved_doc @ u ''\<newline>''
     @ u ''Please use this context to help your answer. '' @ u fallback_instruction
     @ u ''\<newline>''\<close>

definition chat_args :: "py_env \<Rightarrow> globals \<Rightarrow> pyval \<Rightarrow> pyval \<Rightarrow> complete_args" where
  "chat_args env g user_question retrieved_doc =
     \<lparr>model = phi4_deployment g,
      messages = [SystemMessage (system_prompt env retrieved_doc), UserMessage user_question],
      temperature = Finite (5404319552844595 / 18014398509481984),
      max_tokens = 300\<rparr>"

text \<open>The value returned, and the calls made to the project client.\<close>

definition chat_with_phi4_rag ::
  "py_env \<Rightarrow> globals \<Rightarrow> pyval \<Rightarrow> pyval \<Rightarrow> pyval \<times> complete_args list" where
  "chat_with_phi4_rag env g user_question retrieved_doc =
     (case project_client g of
        None \<Rightarrow> (PStr (u ''Error: Azure AI Project client not initialized''), [])
      | Some client \<Rightarrow>
          (case client (chat_args env g user_question retrieved_doc) of
             Inr content \<Rightarrow> (content, [chat_args env g user_question retrieved_doc])
           | Inl e \<Rightarrow>
               (PStr (u ''Error communicating with Azure AI Project: '' @ exn_str e),
                [chat_args env g user_question retrieved_doc])))"

text \<open>\<open>'.' in filename and filename.rsplit('.', 1)[1].lower() == 'pdf'\<close>; 46 is the dot.\<close>

definition allowed_file :: "py_env \<Rightarrow> pystr \<Rightarrow> bool" where
  "allowed_file env filename =
     (46 \<in> set filename
      \<and> py_lower env (rev (takeWhile (\<lambda>c. c \<noteq> 46) (rev filename))) = u ''pdf'')"

text \<open>The loop over the pages: each page's text is appended, the first exception ends it.\<close>

fun extract_pages :: "(exn + pystr) list \<Rightarrow> pystr \<Rightarrow> exn + pystr" where
  "extract_pages [] text = Inr text"
| "extract_pages (page # pages) text =
     (case page of Inl e \<Rightarrow> Inl e | Inr t \<Rightarrow> extract_pages pages (text @ t))"

text \<open>The body of the \<open>try\<close> block of \<open>extract_text_from_pdf\<close>.\<close>

definition parse_pdf :: "py_env \<Rightarrow> pystr \<Rightarrow> exn + pystr" where
  "parse_pdf env file =
     (case PdfReader env file of Inl e \<Rightarrow> Inl e | Inr pages \<Rightarrow> extract_pages pages [])"

definition extract_text_from_pdf :: "py_env \<Rightarrow> pystr \<Rightarrow> pystr" where
  "extract_text_from_pdf env file =
     (case parse_pdf env file of
        Inr text \<Rightarrow> text
      | Inl e \<Rightarrow> u ''Error extracting text: '' @ exn_str e)"

text \<open>
  What a view function returns: the value given to \<open>jsonify\<close> and the status, 200 where
  the source gives none.
\<close>

record flask_response =
  status :: int
  json :: body_text

definition jsonify_error :: "pystr \<Rightarrow> int \<Rightarrow> flask_response" where
  "jsonify_error msg code = \<lparr>status = code, json = JsonDumps (PDict [(u ''error'', PStr msg)])\<rparr>"

text \<open>An uploaded file: its name, and what \<open>read()\<close> does. It is falsy when its name is empty.\<close>

record file_storage =
  filename :: pystr
  read :: "exn + pystr"

definition upload_pdf :: "py_env \<Rightarrow> (pystr \<times> file_storage) list \<Rightarrow> flask_response" where
  "upload_pdf env files =
     (case map_of files (u ''file'') of
        None \<Rightarrow> jsonify_error (u ''No file part'') 400
      | Some file \<Rightarrow>
          if filename file = [] then jsonify_error (u ''No selected file'') 400
          else if filename file \<noteq> [] \<and> allowed_file env (filename file) then
            (case read file of
               Inl e \<Rightarrow> jsonify_error (exn_str e) 500
             | Inr bytes \<Rightarrow>
                 \<lparr>status = 200,
                  json = JsonDumps (PDict [(u ''success'', PBool True),
                                           (u ''text'', PStr (extract_text_from_pdf env bytes))])\<rparr>)
          else jsonify_error (u ''Invalid file type'') 400)"

text \<open>
  The body of the \<open>try\<close> block of \<open>ask_question\<close>, given what \<open>request.get_json()\<close>
  does: the response returned or the exception raised, and the calls made to the project
  client.
\<close>

definition ask_question_try ::
  "py_env \<Rightarrow> globals \<Rightarrow> exn + pyval \<Rightarrow> (exn + flask_response) \<times> complete_args list" where
  "ask_question_try env g get_json =
     (case get_json of
        Inl e \<Rightarrow> (Inl e, [])
      | Inr data \<Rightarrow>
     (case dict_get data (u ''context'') (PStr []) of
        Inl e \<Rightarrow> (Inl e, [])
      | Inr pdf_text \<Rightarrow>
     (case dict_get data (u ''question'') (PStr []) of
        Inl e \<Rightarrow> (Inl e, [])
      | Inr question \<Rightarrow>
        if \<not> truthy pdf_text \<or> \<not> truthy question then
          (Inr (jsonify_error (u ''Missing context or question'') 400), [])
        else
          (case chat_with_phi4_rag env g question pdf_text of
             (answer, calls) \<Rightarrow>
               (Inr \<lparr>status = 200,
                     json = JsonDumps (PDict [(u ''answer'', answer),
                                              (u ''success'', PBool True)])\<rparr>,
                calls)))))"

definition ask_question ::
  "py_env \<Rightarrow> globals \<Rightarrow> exn + pyval \<Rightarrow> flask_response \<times> complete_args list" where
  "ask_question env g get_json =
     (case ask_question_try env g get_json of
        (Inr resp, calls) \<Rightarrow> (resp, calls)
      | (Inl e, calls) \<Rightarrow> (jsonify_error (exn_str e) 500, calls))"

section \<open>Stubs for the collaborators\<close>

text \<open>
  Concrete requests and collaborators on which the theorems below are instantiated.
  \<open>stub_json_loads\<close> is \<open>json.loads\<close> on the few texts used here; anything else raises,
  as an argument that is not JSON does.
\<close>

definition gym_context :: pystr where
  "gym_context = u ''The gym opens at 6am.''"

definition gym_question :: pystr where
  "gym_question = u ''What time does the gym open?''"

definition gym_fields :: "(pystr \<times> pyval) list" where
  "gym_fields = [(u ''context'', PStr gym_context), (u ''question'', PStr gym_question)]"

definition gym_json :: pyval where
  \<open>gym_json =
     PStr (u ''{"context": "The gym opens at 6am.", "question": "What time does the gym open?"}'')\<close>

definition empty_context_fields :: "(pystr \<times> pyval) list" where
  "empty_context_fields = [(u ''context'', PStr []), (u ''question'', PStr (u ''X?''))]"

definition empty_context_json :: pyval where
  \<open>empty_context_json = PStr (u ''{"context": "", "question": "X?"}'')\<close>

definition titan_json :: pyval where
  \<open>titan_json = PStr (u ''{"results": [{"outputText": " 6am "}]}'')\<close>

definition not_json :: pyval where
  "not_json = PStr (u ''context=x'')"

definition stub_json_loads :: "pyval \<Rightarrow> exn + pyval" where
  "stub_json_loads v =
     (if v = PStr (u ''{}'') then Inr (PDict [])
      else if v = gym_json then Inr (PDict gym_fields)
      else if v = empty_context_json then Inr (PDict empty_context_fields)
      else if v = titan_json then
        Inr (PDict [(u ''results'', PList [PDict [(u ''outputText'', PStr (u '' 6am ''))]])])
      else Inl (Exn ''JSONDecodeError'' (u ''Expecting value: line 1 column 1 (char 0)'')))"

definition ascii_lower :: "pystr \<Rightarrow> pystr" where
  "ascii_lower s = map (\<lambda>c. if 65 \<le> c \<and> c \<le> 90 then c + 32 else c) s"

definition stub_py :: py_env where
  "stub_py =
     \<lparr>json_loads = stub_json_loads,
      py_str = (\<lambda>v. u ''None''),
      py_lower = ascii_lower,
      PdfReader = (\<lambda>bytes. Inl (Exn ''PdfReadError'' (u ''EOF marker not found'')))\<rparr>"

definition bedrock_ok :: bedrock_client where
  "bedrock_ok args = Inr titan_json"

definition bedrock_failing :: bedrock_client where
  "bedrock_failing args = Inl (Exn ''ClientError'' (u ''AccessDeniedException''))"

definition stub_lambda :: "bedrock_client \<Rightarrow> lambda_env" where
  "stub_lambda bedrock = \<lparr>py = stub_py, boto3_client = Inr bedrock\<rparr>"

definition options_event :: event where
  "options_event = [(u ''httpMethod'', PStr (u ''OPTIONS''))]"

definition post_event :: "pyval \<Rightarrow> event" where
  "post_event b = [(u ''httpMethod'', PStr (u ''POST'')), (u ''body'', b)]"

definition no_body_event :: event where
  "no_body_event = [(u ''httpMethod'', PStr (u ''POST''))]"

definition azure_ok :: ai_project_client where
  "azure_ok args = Inr (PStr (u '' 6am ''))"

definition azure_failing :: ai_project_client where
  "azure_failing args = Inl (Exn ''HttpResponseError'' (u ''boom''))"

definition initialized :: "ai_project_client \<Rightarrow> globals" where
  "initialized client = \<lparr>project_client = Some client, phi4_deployment = PStr (u ''phi-4'')\<rparr>"

definition uninitialized :: globals where
  "uninitialized = \<lparr>project_client = None, phi4_deployment = PNone\<rparr>"

definition report_upload :: "(pystr \<times> file_storage) list" where
  "report_upload = [(u ''file'', \<lparr>filename = u ''report.pdf'', read = Inr (u ''not a pdf'')\<rparr>)]"

section \<open>Properties\<close>

text \<open>What the properties say about a body and about a request's fields.\<close>

definition absent_or_empty :: "(pystr \<times> pyval) list \<Rightarrow> string \<Rightarrow> bool" where
  "absent_or_empty kvs k = (map_of kvs (u k) = None \<or> map_of kvs (u k) = Some (PStr []))"

definition acao :: pystr where
  "acao = u ''Access-Control-Allow-Origin''"

subsection \<open>Auxiliary facts\<close>

lemma u_eq_iff [simp]: "u a = u b \<longleftrightarrow> a = b"
  unfolding u_def by (simp add: inj_map_eq_map inj_on_def)

lemma u_Nil [simp]: "u [] = []"
  by (simp add: u_def)

lemma u_eq_Nil [simp]: "u a = [] \<longleftrightarrow> a = []"
  by (simp add: u_def)

lemma format_value_PStr [simp]: "format_value env (PStr s) = s"
  by (simp add: format_value_def)

lemma has_field_single [simp]: "has_field (JsonDumps (PDict [(u k, v)])) k' \<longleftrightarrow> k = k'"
  by (auto simp: has_field_def)

lemma has_field_Text [simp]: "\<not> has_field (Text t) k"
  by (simp add: has_field_def)

lemma has_field_answer_success [simp]:
  "has_field (JsonDumps (PDict [(u ''answer'', a), (u ''success'', b)])) ''answer''"
  "\<not> has_field (JsonDumps (PDict [(u ''answer'', a), (u ''success'', b)])) ''error''"
  by (simp_all add: has_field_def)

lemma field_inputText [simp]:
  "field (req_body (invoke_args env c q)) ''inputText'' = Some (PStr (prompt_data env c q))"
  by (simp add: field_def invoke_args_def bedrock_body_def)

lemma absent_or_empty_falsy:
  "absent_or_empty kvs k \<Longrightarrow> dict_get (PDict kvs) (u k) (PStr []) = Inr (PStr [])"
  by (auto simp: absent_or_empty_def)

lemma acao_json: "map_of cors_json_headers acao = Some (u ''*'')"
  by (simp add: cors_json_headers_def acao_def)

lemma acao_preflight: "map_of cors_preflight_headers acao = Some (u ''*'')"
  by (simp add: cors_preflight_headers_def acao_def)

text \<open>What \<open>strip\<close> removes is whitespace, and nothing of it is left at either end.\<close>

lemma strip_decomposition:
  "\<exists>l r. s = l @ strip s @ r \<and> (\<forall>c\<in>set l. isspace c) \<and> (\<forall>c\<in>set r. isspace c)"
proof -
  let ?t = "dropWhile isspace s"
  have "s = takeWhile isspace s @ ?t"
    by simp
  moreover have "?t = rev (dropWhile isspace (rev ?t)) @ rev (takeWhile isspace (rev ?t))"
    by (metis rev_append rev_rev_ident takeWhile_dropWhile_id)
  ultimately have "s = takeWhile isspace s @ strip s @ rev (takeWhile isspace (rev ?t))"
    by (simp add: strip_def)
  moreover have "\<forall>c\<in>set (takeWhile isspace s). isspace c"
    by (auto dest: set_takeWhileD)
  moreover have "\<forall>c\<in>set (rev (takeWhile isspace (rev ?t))). isspace c"
    by (auto dest: set_takeWhileD)
  ultimately show ?thesis
    by blast
qed

lemma strip_ends:
  assumes "strip s \<noteq> []"
  shows "\<not> isspace (hd (strip s)) \<and> \<not> isspace (last (strip s))"
proof -
  let ?t = "dropWhile isspace s"
  let ?d = "dropWhile isspace (rev ?t)"
  from assms have d: "?d \<noteq> []"
    by (simp add: strip_def)
  then have t: "?t \<noteq> []"
    by (metis dropWhile.simps(1) rev.simps(1))
  have "last (strip s) = hd ?d"
    using d by (simp add: strip_def last_rev)
  moreover have "\<not> isspace (hd ?d)"
    using d by (rule hd_dropWhile)
  moreover have "hd (strip s) = last ?d"
    using d by (simp add: strip_def hd_rev)
  moreover have "last ?d = last (rev ?t)"
    using d by (metis append_Nil2 last_appendR takeWhile_dropWhile_id)
  moreover have "last (rev ?t) = hd ?t"
    using t by (simp add: last_rev)
  moreover have "\<not> isspace (hd ?t)"
    using t by (rule hd_dropWhile)
  ultimately show ?thesis
    by simp
qed

lemma strip_6am: "strip (u '' 6am '') = u ''6am''"
  by (simp add: strip_def u_def isspace_def)

text \<open>The text of a prompt: a segment stays inside when more text is put in front.\<close>

lemma sublist_head: "sublist x (x @ ss)"
  by (rule sublist_append_rightI)

lemma sublist_skip: "sublist x ys \<Longrightarrow> sublist x (a @ ys)"
  by (metis append.assoc sublist_def)

lemma prompt_data_contains:
  "sublist c (prompt_data env (PStr c) (PStr q))"
  "sublist q (prompt_data env (PStr c) (PStr q))"
  "sublist (u fallback_phrase) (prompt_data env (PStr c) (PStr q))"
  unfolding prompt_data_def format_value_PStr
  subgoal
    by (rule sublist_skip, rule sublist_skip, rule sublist_skip,
        rule sublist_skip, rule sublist_head)
  subgoal
    by (rule sublist_skip, rule sublist_skip, rule sublist_skip,
        rule sublist_skip, rule sublist_skip, rule sublist_skip,
        rule sublist_head)
  subgoal
    by (rule sublist_skip, rule sublist_skip, rule sublist_head)
  done

lemma system_prompt_contains:
  "sublist c (system_prompt env (PStr c))"
  "sublist (u fallback_instruction) (system_prompt env (PStr c))"
  unfolding system_prompt_def format_value_PStr
  subgoal
    by (rule sublist_skip, rule sublist_skip, rule sublist_head)
  subgoal
    by (rule sublist_skip, rule sublist_skip, rule sublist_skip,
        rule sublist_skip, rule sublist_skip, rule sublist_head)
  done

text \<open>The function variant, path by path.\<close>

lemma answer_response_Inr:
  assumes "answer_response env raw = Inr r"
  shows "\<exists>stripped. r = \<lparr>statusCode = 200, headers = cors_json_headers,
                            body = JsonDumps (PDict [(u ''answer'', stripped)])\<rparr>"
  using assms unfolding answer_response_def
  by (auto split: sum.splits)

lemma answer_response_text:
  assumes "json_loads env raw = Inr (PDict rb)"
      and "map_of rb (u ''results'') = Some (PList (PDict r0 # rest))"
      and "map_of r0 (u ''outputText'') = Some (PStr s)"
  shows "answer_response env raw =
           Inr \<lparr>statusCode = 200, headers = cors_json_headers,
                body = JsonDumps (PDict [(u ''answer'', PStr (strip s))])\<rparr>"
  using assms unfolding answer_response_def by simp

lemma lambda_try_Inr:
  assumes "lambda_try env bedrock event = (Inr r, calls)"
  shows "(r = \<lparr>statusCode = 400, headers = cors_json_headers,
               body = JsonDumps (PDict [(u ''error'', PStr (u ''Missing context or question''))])\<rparr>
          \<and> calls = [])
       \<or> (\<exists>stripped. r = \<lparr>statusCode = 200, headers = cors_json_headers,
                              body = JsonDumps (PDict [(u ''answer'', stripped)])\<rparr>)"
  using assms unfolding lambda_try_def
  by (auto split: sum.splits if_splits dest: answer_response_Inr)

lemma lambda_handler_falsy:
  assumes "boto3_client lenv = Inr bedrock"
      and "event_get event ''httpMethod'' PNone \<noteq> PStr (u ''OPTIONS'')"
      and "json_loads (py lenv) (event_get event ''body'' (PStr (u ''{}''))) = Inr (PDict kvs)"
      and "dict_get (PDict kvs) (u ''context'') (PStr []) = Inr c"
      and "dict_get (PDict kvs) (u ''question'') (PStr []) = Inr q"
      and "\<not> truthy c \<or> \<not> truthy q"
  shows "lambda_handler lenv event =
           (Inr \<lparr>statusCode = 400, headers = cors_json_headers,
                 body = JsonDumps (PDict [(u ''error'', PStr (u ''Missing context or question''))])\<rparr>,
            [])"
  using assms unfolding lambda_handler_def lambda_try_def by auto

lemma lambda_handler_wellformed:
  assumes "boto3_client lenv = Inr bedrock"
      and "event_get event ''httpMethod'' PNone \<noteq> PStr (u ''OPTIONS'')"
      and "json_loads (py lenv) (event_get event ''body'' (PStr (u ''{}''))) = Inr (PDict kvs)"
      and "map_of kvs (u ''context'') = Some (PStr c)" and "c \<noteq> []"
      and "map_of kvs (u ''question'') = Some (PStr q)" and "q \<noteq> []"
  shows "lambda_handler lenv event =
           (case bedrock (invoke_args (py lenv) (PStr c) (PStr q)) of
              Inl e \<Rightarrow>
                (Inr \<lparr>statusCode = 500, headers = cors_json_headers,
                      body = JsonDumps (PDict [(u ''error'', PStr (exn_str e))])\<rparr>,
                 [invoke_args (py lenv) (PStr c) (PStr q)])
            | Inr raw \<Rightarrow>
                (case answer_response (py lenv) raw of
                   Inr resp \<Rightarrow> (Inr resp, [invoke_args (py lenv) (PStr c) (PStr q)])
                 | Inl e \<Rightarrow>
                     (Inr \<lparr>statusCode = 500, headers = cors_json_headers,
                           body = JsonDumps (PDict [(u ''error'', PStr (exn_str e))])\<rparr>,
                      [invoke_args (py lenv) (PStr c) (PStr q)])))"
  using assms unfolding lambda_handler_def lambda_try_def
  by (simp split: sum.splits)

lemma lambda_handler_shape:
  assumes "boto3_client lenv = Inr bedrock"
      and "event_get event ''httpMethod'' PNone \<noteq> PStr (u ''OPTIONS'')"
  shows "\<exists>resp calls. lambda_handler lenv event = (Inr resp, calls)
           \<and> (has_field (body resp) ''answer'' \<longleftrightarrow> \<not> has_field (body resp) ''error'')
           \<and> (has_field (body resp) ''answer'' \<longleftrightarrow> statusCode resp = 200)"
proof (cases "lambda_try (py lenv) bedrock event")
  case (Pair outcome calls)
  show ?thesis
  proof (cases outcome)
    case (Inl e)
    with Pair assms show ?thesis
      by (simp add: lambda_handler_def)
  next
    case (Inr r)
    with Pair have "lambda_try (py lenv) bedrock event = (Inr r, calls)"
      by simp
    from lambda_try_Inr [OF this] Pair Inr assms show ?thesis
      by (auto simp: lambda_handler_def)
  qed
qed

text \<open>
  When the client cannot be constructed, the exception leaves the handler, whatever
  the event; the properties of the function variant below are about a constructed client.
\<close>

lemma lambda_handler_no_client:
  "boto3_client lenv = Inl e \<Longrightarrow> lambda_handler lenv event = (Inl e, [])"
  by (simp add: lambda_handler_def)

text \<open>The process variant, path by path.\<close>

lemma ask_question_falsy:
  assumes "dict_get (PDict kvs) (u ''context'') (PStr []) = Inr c"
      and "dict_get (PDict kvs) (u ''question'') (PStr []) = Inr q"
      and "\<not> truthy c \<or> \<not> truthy q"
  shows "ask_question env g (Inr (PDict kvs)) =
           (jsonify_error (u ''Missing context or question'') 400, [])"
  using assms unfolding ask_question_def ask_question_try_def by auto

lemma ask_question_wellformed:
  assumes "map_of kvs (u ''context'') = Some (PStr c)" and "c \<noteq> []"
      and "map_of kvs (u ''question'') = Some (PStr q)" and "q \<noteq> []"
  shows "ask_question env g (Inr (PDict kvs)) =
           (\<lparr>status = 200,
             json = JsonDumps (PDict [(u ''answer'', fst (chat_with_phi4_rag env g (PStr q) (PStr c))),
                                      (u ''success'', PBool True)])\<rparr>,
            snd (chat_with_phi4_rag env g (PStr q) (PStr c)))"
  using assms unfolding ask_question_def ask_question_try_def
  by (simp split: prod.splits)

lemma ask_question_shape:
  "(has_field (json (fst (ask_question env g get_json))) ''answer''
      \<longleftrightarrow> \<not> has_field (json (fst (ask_question env g get_json))) ''error'')
   \<and> (has_field (json (fst (ask_question env g get_json))) ''answer''
      \<longleftrightarrow> status (fst (ask_question env g get_json)) = 200)"
  unfolding ask_question_def ask_question_try_def
  by (simp add: jsonify_error_def split: sum.splits prod.splits)

text \<open>
  The one path of \<open>upload_pdf\<close> that ends in status 500: reading the uploaded file raises.
\<close>

lemma upload_read_failure:
  assumes "map_of files (u ''file'') = Some file"
      and "filename file \<noteq> []"
      and "allowed_file env (filename file)"
      and "read file = Inl e"
  shows "upload_pdf env files = jsonify_error (exn_str e) 500"
  using assms by (simp add: upload_pdf_def)

text \<open>The stubs, evaluated.\<close>

lemma stub_post_method [simp]:
  "event_get (post_event b) ''httpMethod'' PNone \<noteq> PStr (u ''OPTIONS'')"
  "event_get no_body_event ''httpMethod'' PNone \<noteq> PStr (u ''OPTIONS'')"
  by (simp_all add: event_get_def post_event_def no_body_event_def)

lemma stub_post_body [simp]:
  "event_get (post_event b) ''body'' d = b"
  "event_get no_body_event ''body'' d = d"
  by (simp_all add: event_get_def post_event_def no_body_event_def)

lemma stub_lambda_simps [simp]:
  "boto3_client (stub_lambda bedrock) = Inr bedrock"
  "py (stub_lambda bedrock) = stub_py"
  "json_loads stub_py = stub_json_loads"
  by (simp_all add: stub_lambda_def stub_py_def)

lemma stub_json_loads_simps [simp]:
  "stub_json_loads (PStr (u ''{}'')) = Inr (PDict [])"
  "stub_json_loads gym_json = Inr (PDict gym_fields)"
  "stub_json_loads empty_context_json = Inr (PDict empty_context_fields)"
  "stub_json_loads titan_json =
     Inr (PDict [(u ''results'', PList [PDict [(u ''outputText'', PStr (u '' 6am ''))]])])"
  "stub_json_loads not_json = Inl (Exn ''JSONDecodeError'' (u ''Expecting value: line 1 column 1 (char 0)''))"
  by (simp_all add: stub_json_loads_def gym_json_def empty_context_json_def titan_json_def
      not_json_def)

lemma gym_fields_simps [simp]:
  "map_of gym_fields (u ''context'') = Some (PStr gym_context)"
  "gym_context \<noteq> []"
  "map_of gym_fields (u ''question'') = Some (PStr gym_question)"
  "gym_question \<noteq> []"
  by (simp_all add: gym_fields_def gym_context_def gym_question_def)

lemma stub_clients [simp]:
  "project_client (initialized client) = Some client"
  "project_client uninitialized = None"
  "bedrock_failing a = Inl (Exn ''ClientError'' (u ''AccessDeniedException''))"
  "bedrock_ok a = Inr titan_json"
  "azure_failing b = Inl (Exn ''HttpResponseError'' (u ''boom''))"
  "azure_ok b = Inr (PStr (u '' 6am ''))"
  by (simp_all add: initialized_def uninitialized_def bedrock_failing_def bedrock_ok_def
      azure_failing_def azure_ok_def)

lemma allowed_report: "allowed_file stub_py (u ''report.pdf'')"
  by (simp add: allowed_file_def stub_py_def ascii_lower_def u_def)

lemma stub_parse_pdf:
  "parse_pdf stub_py bytes = Inl (Exn ''PdfReadError'' (u ''EOF marker not found''))"
  by (simp add: parse_pdf_def stub_py_def)

lemma report_upload_simps:
  "map_of report_upload (u ''file'') = Some \<lparr>filename = u ''report.pdf'', read = Inr (u ''not a pdf'')\<rparr>"
  "filename \<lparr>filename = u ''report.pdf'', read = Inr (u ''not a pdf'')\<rparr> \<noteq> []"
  "allowed_file stub_py (filename \<lparr>filename = u ''report.pdf'', read = Inr (u ''not a pdf'')\<rparr>)"
  "read \<lparr>filename = u ''report.pdf'', read = Inr (u ''not a pdf'')\<rparr> = Inr (u ''not a pdf'')"
  "parse_pdf stub_py (u ''not a pdf'') = Inl (Exn ''PdfReadError'' (u ''EOF marker not found''))"
  by (simp_all add: report_upload_def allowed_report stub_parse_pdf)

lemma invalid_body_response:
  "lambda_handler (stub_lambda bedrock_failing) (post_event not_json) =
     (Inr \<lparr>statusCode = 500, headers = cors_json_headers,
           body = JsonDumps (PDict [(u ''error'',
                    PStr (u ''Expecting value: line 1 column 1 (char 0)''))])\<rparr>, [])"
  by (simp add: lambda_handler_def lambda_try_def)

subsection \<open>Missing fields\<close>

text \<open>
  C1. A request to the ask-question operation whose JSON object has the context field or
  the question field absent or equal to the empty string is answered, in both variants,
  with status 400 and a body that has an error field, and no call is made to the model
  inference client. In the function variant the ask-question operation is every event
  that is not the preflight, handled with a constructed client.
\<close>

theorem missing_field_rejected:
  assumes "absent_or_empty kvs ''context'' \<or> absent_or_empty kvs ''question''"
      and "boto3_client lenv = Inr bedrock"
      and "event_get event ''httpMethod'' PNone \<noteq> PStr (u ''OPTIONS'')"
      and "json_loads (py lenv) (event_get event ''body'' (PStr (u ''{}''))) = Inr (PDict kvs)"
  shows "(\<exists>resp. ask_question env g (Inr (PDict kvs)) = (resp, [])
            \<and> status resp = 400 \<and> has_field (json resp) ''error'')
       \<and> (\<exists>resp. lambda_handler lenv event = (Inr resp, [])
            \<and> statusCode resp = 400 \<and> has_field (body resp) ''error'')"
proof -
  obtain c q where c: "dict_get (PDict kvs) (u ''context'') (PStr []) = Inr c"
    and q: "dict_get (PDict kvs) (u ''question'') (PStr []) = Inr q"
    by simp
  from assms(1) have falsy: "\<not> truthy c \<or> \<not> truthy q"
  proof
    assume "absent_or_empty kvs ''context''"
    from absent_or_empty_falsy [OF this] c show ?thesis by auto
  next
    assume "absent_or_empty kvs ''question''"
    from absent_or_empty_falsy [OF this] q show ?thesis by auto
  qed
  have "ask_question env g (Inr (PDict kvs)) =
          (jsonify_error (u ''Missing context or question'') 400, [])"
    by (rule ask_question_falsy [OF c q falsy])
  moreover have "lambda_handler lenv event =
           (Inr \<lparr>statusCode = 400, headers = cors_json_headers,
                 body = JsonDumps (PDict [(u ''error'', PStr (u ''Missing context or question''))])\<rparr>,
            [])"
    by (rule lambda_handler_falsy [OF assms(2-4) c q falsy])
  ultimately show ?thesis
    by (simp add: jsonify_error_def)
qed

theorem missing_field_rejected_witness:
  "(absent_or_empty empty_context_fields ''context''
      \<or> absent_or_empty empty_context_fields ''question'')
   \<and> ((\<exists>resp. ask_question stub_py (initialized azure_ok) (Inr (PDict empty_context_fields))
                 = (resp, [])
            \<and> status resp = 400 \<and> has_field (json resp) ''error'')
       \<and> (\<exists>resp. lambda_handler (stub_lambda bedrock_ok) (post_event empty_context_json)
                 = (Inr resp, [])
            \<and> statusCode resp = 400 \<and> has_field (body resp) ''error''))"
proof -
  have h1: "absent_or_empty empty_context_fields ''context''
      \<or> absent_or_empty empty_context_fields ''question''"
    by (simp add: absent_or_empty_def empty_context_fields_def)
  have h2: "boto3_client (stub_lambda bedrock_ok) = Inr bedrock_ok"
    by simp
  have h3: "event_get (post_event empty_context_json) ''httpMethod'' PNone \<noteq> PStr (u ''OPTIONS'')"
    by simp
  have h4: "json_loads (py (stub_lambda bedrock_ok))
              (event_get (post_event empty_context_json) ''body'' (PStr (u ''{}'')))
            = Inr (PDict empty_context_fields)"
    by simp
  show ?thesis
    using h1 missing_field_rejected [OF h1 h2 h3 h4] by (rule conjI)
qed

subsection \<open>Failure of the model inference client\<close>

text \<open>
  C2, as the code has it. For a request with non-empty context and question strings:
  in the function variant, when the Bedrock client raises \<open>e\<close>, the response has status
  500, the CORS headers and the body \<open>{error: str(e)}\<close>, after one call to the client;
  in the process variant, with an initialised client, when the chat client raises \<open>e'\<close>,
  \<open>chat_with_phi4_rag\<close> catches it and \<open>ask_question\<close> returns status 200 with the body
  \<open>{answer: "Error communicating with Azure AI Project: " + str(e'), success: true}\<close>.
\<close>

theorem inference_failure_reported:
  assumes "boto3_client lenv = Inr bedrock"
      and "event_get event ''httpMethod'' PNone \<noteq> PStr (u ''OPTIONS'')"
      and "json_loads (py lenv) (event_get event ''body'' (PStr (u ''{}''))) = Inr (PDict kvs)"
      and "map_of kvs (u ''context'') = Some (PStr c)" and "c \<noteq> []"
      and "map_of kvs (u ''question'') = Some (PStr q)" and "q \<noteq> []"
      and "bedrock (invoke_args (py lenv) (PStr c) (PStr q)) = Inl e"
      and "project_client g = Some client"
      and "client (chat_args env g (PStr q) (PStr c)) = Inl e'"
  shows "lambda_handler lenv event =
           (Inr \<lparr>statusCode = 500, headers = cors_json_headers,
                 body = JsonDumps (PDict [(u ''error'', PStr (exn_str e))])\<rparr>,
            [invoke_args (py lenv) (PStr c) (PStr q)])
       \<and> ask_question env g (Inr (PDict kvs)) =
           (\<lparr>status = 200,
             json = JsonDumps (PDict
               [(u ''answer'', PStr (u ''Error communicating with Azure AI Project: '' @ exn_str e')),
                (u ''success'', PBool True)])\<rparr>,
            [chat_args env g (PStr q) (PStr c)])"
proof (rule conjI)
  show "lambda_handler lenv event =
           (Inr \<lparr>statusCode = 500, headers = cors_json_headers,
                 body = JsonDumps (PDict [(u ''error'', PStr (exn_str e))])\<rparr>,
            [invoke_args (py lenv) (PStr c) (PStr q)])"
    unfolding lambda_handler_wellformed [OF assms(1-7)] using assms(8) by simp
next
  have "chat_with_phi4_rag env g (PStr q) (PStr c) =
          (PStr (u ''Error communicating with Azure AI Project: '' @ exn_str e'),
           [chat_args env g (PStr q) (PStr c)])"
    using assms(9,10) by (simp add: chat_with_phi4_rag_def)
  then show "ask_question env g (Inr (PDict kvs)) =
           (\<lparr>status = 200,
             json = JsonDumps (PDict
               [(u ''answer'', PStr (u ''Error communicating with Azure AI Project: '' @ exn_str e')),
                (u ''success'', PBool True)])\<rparr>,
            [chat_args env g (PStr q) (PStr c)])"
    unfolding ask_question_wellformed [OF assms(4-7)] by simp
qed

theorem inference_failure_reported_witness:
  "bedrock_failing (invoke_args (py (stub_lambda bedrock_failing)) (PStr gym_context) (PStr gym_question))
     = Inl (Exn ''ClientError'' (u ''AccessDeniedException''))
   \<and> azure_failing (chat_args stub_py (initialized azure_failing) (PStr gym_question) (PStr gym_context))
     = Inl (Exn ''HttpResponseError'' (u ''boom''))
   \<and> lambda_handler (stub_lambda bedrock_failing) (post_event gym_json) =
           (Inr \<lparr>statusCode = 500, headers = cors_json_headers,
                 body = JsonDumps (PDict [(u ''error'', PStr (u ''AccessDeniedException''))])\<rparr>,
            [invoke_args stub_py (PStr gym_context) (PStr gym_question)])
   \<and> ask_question stub_py (initialized azure_failing) (Inr (PDict gym_fields)) =
           (\<lparr>status = 200,
             json = JsonDumps (PDict
               [(u ''answer'', PStr (u ''Error communicating with Azure AI Project: '' @ u ''boom'')),
                (u ''success'', PBool True)])\<rparr>,
            [chat_args stub_py (initialized azure_failing) (PStr gym_question) (PStr gym_context)])"
proof -
  have h1: "boto3_client (stub_lambda bedrock_failing) = Inr bedrock_failing"
    by simp
  have h2: "event_get (post_event gym_json) ''httpMethod'' PNone \<noteq> PStr (u ''OPTIONS'')"
    by simp
  have h3: "json_loads (py (stub_lambda bedrock_failing))
              (event_get (post_event gym_json) ''body'' (PStr (u ''{}''))) = Inr (PDict gym_fields)"
    by simp
  have h8: "bedrock_failing
              (invoke_args (py (stub_lambda bedrock_failing)) (PStr gym_context) (PStr gym_question))
            = Inl (Exn ''ClientError'' (u ''AccessDeniedException''))"
    by simp
  have h9: "project_client (initialized azure_failing) = Some azure_failing"
    by simp
  have h10: "azure_failing
               (chat_args stub_py (initialized azure_failing) (PStr gym_question) (PStr gym_context))
             = Inl (Exn ''HttpResponseError'' (u ''boom''))"
    by simp
  show ?thesis
    using h8 h10
      inference_failure_reported [OF h1 h2 h3 gym_fields_simps h8 h9 h10]
    by simp
qed

text \<open>
  C2 as stated fails in the process variant: with the chat client raising on the gym
  request, the response has status 200 and no error field.
\<close>

theorem inference_failure_counterexample:
  "azure_failing (chat_args stub_py (initialized azure_failing) (PStr gym_question) (PStr gym_context))
     = Inl (Exn ''HttpResponseError'' (u ''boom''))
   \<and> status (fst (ask_question stub_py (initialized azure_failing) (Inr (PDict gym_fields)))) = 200
   \<and> \<not> has_field (json (fst (ask_question stub_py (initialized azure_failing) (Inr (PDict gym_fields)))))
         ''error''"
  unfolding ask_question_wellformed [OF gym_fields_simps]
  by (simp add: has_field_def)

subsection \<open>The answer of a successful request\<close>

text \<open>
  C3, as the code has it. For a request with non-empty context and question strings and
  a client that yields generated text: in the function variant (text \<open>s\<close> under
  \<open>results[0].outputText\<close>) the response has status 200 and the answer \<open>s.strip()\<close>; in the
  process variant (message content \<open>s'\<close>) the response has status 200 and the answer
  \<open>s'\<close> itself, not trimmed.
\<close>

theorem answer_is_generated_text:
  assumes "boto3_client lenv = Inr bedrock"
      and "event_get event ''httpMethod'' PNone \<noteq> PStr (u ''OPTIONS'')"
      and "json_loads (py lenv) (event_get event ''body'' (PStr (u ''{}''))) = Inr (PDict kvs)"
      and "map_of kvs (u ''context'') = Some (PStr c)" and "c \<noteq> []"
      and "map_of kvs (u ''question'') = Some (PStr q)" and "q \<noteq> []"
      and "bedrock (invoke_args (py lenv) (PStr c) (PStr q)) = Inr raw"
      and "json_loads (py lenv) raw = Inr (PDict rb)"
      and "map_of rb (u ''results'') = Some (PList (PDict r0 # rest))"
      and "map_of r0 (u ''outputText'') = Some (PStr s)"
      and "project_client g = Some client"
      and "client (chat_args env g (PStr q) (PStr c)) = Inr (PStr s')"
  shows "lambda_handler lenv event =
           (Inr \<lparr>statusCode = 200, headers = cors_json_headers,
                 body = JsonDumps (PDict [(u ''answer'', PStr (strip s))])\<rparr>,
            [invoke_args (py lenv) (PStr c) (PStr q)])
       \<and> ask_question env g (Inr (PDict kvs)) =
           (\<lparr>status = 200,
             json = JsonDumps (PDict [(u ''answer'', PStr s'), (u ''success'', PBool True)])\<rparr>,
            [chat_args env g (PStr q) (PStr c)])"
proof (rule conjI)
  show "lambda_handler lenv event =
           (Inr \<lparr>statusCode = 200, headers = cors_json_headers,
                 body = JsonDumps (PDict [(u ''answer'', PStr (strip s))])\<rparr>,
            [invoke_args (py lenv) (PStr c) (PStr q)])"
    unfolding lambda_handler_wellformed [OF assms(1-7)]
    using assms(8) answer_response_text [OF assms(9-11)] by simp
next
  have "chat_with_phi4_rag env g (PStr q) (PStr c) = (PStr s', [chat_args env g (PStr q) (PStr c)])"
    using assms(12,13) by (simp add: chat_with_phi4_rag_def)
  then show "ask_question env g (Inr (PDict kvs)) =
           (\<lparr>status = 200,
             json = JsonDumps (PDict [(u ''answer'', PStr s'), (u ''success'', PBool True)])\<rparr>,
            [chat_args env g (PStr q) (PStr c)])"
    unfolding ask_question_wellformed [OF assms(4-7)] by simp
qed

theorem answer_is_generated_text_witness:
  "lambda_handler (stub_lambda bedrock_ok) (post_event gym_json) =
           (Inr \<lparr>statusCode = 200, headers = cors_json_headers,
                 body = JsonDumps (PDict [(u ''answer'', PStr (u ''6am''))])\<rparr>,
            [invoke_args stub_py (PStr gym_context) (PStr gym_question)])
   \<and> ask_question stub_py (initialized azure_ok) (Inr (PDict gym_fields)) =
           (\<lparr>status = 200,
             json = JsonDumps (PDict [(u ''answer'', PStr (u '' 6am '')), (u ''success'', PBool True)])\<rparr>,
            [chat_args stub_py (initialized azure_ok) (PStr gym_question) (PStr gym_context)])"
proof -
  have h1: "boto3_client (stub_lambda bedrock_ok) = Inr bedrock_ok"
    by simp
  have h2: "event_get (post_event gym_json) ''httpMethod'' PNone \<noteq> PStr (u ''OPTIONS'')"
    by simp
  have h3: "json_loads (py (stub_lambda bedrock_ok))
              (event_get (post_event gym_json) ''body'' (PStr (u ''{}''))) = Inr (PDict gym_fields)"
    by simp
  have h8: "bedrock_ok (invoke_args (py (stub_lambda bedrock_ok)) (PStr gym_context) (PStr gym_question))
            = Inr titan_json"
    by simp
  have h9: "json_loads (py (stub_lambda bedrock_ok)) titan_json =
              Inr (PDict [(u ''results'', PList [PDict [(u ''outputText'', PStr (u '' 6am ''))]])])"
    by simp
  have h10: "map_of [(u ''results'', PList [PDict [(u ''outputText'', PStr (u '' 6am ''))]])]
               (u ''results'') = Some (PList (PDict [(u ''outputText'', PStr (u '' 6am ''))] # []))"
    by simp
  have h11: "map_of [(u ''outputText'', PStr (u '' 6am ''))] (u ''outputText'') = Some (PStr (u '' 6am ''))"
    by simp
  have h12: "project_client (initialized azure_ok) = Some azure_ok"
    by simp
  have h13: "azure_ok (chat_args stub_py (initialized azure_ok) (PStr gym_question) (PStr gym_context))
             = Inr (PStr (u '' 6am ''))"
    by simp
  show ?thesis
    using answer_is_generated_text [OF h1 h2 h3 gym_fields_simps h8 h9 h10 h11 h12 h13]
    by (simp add: strip_6am)
qed

text \<open>
  C3 as stated fails in the process variant: the chat client yields the text " 6am ",
  and the answer is that text, not the trimmed "6am".
\<close>

theorem answer_trimmed_counterexample:
  "azure_ok (chat_args stub_py (initialized azure_ok) (PStr gym_question) (PStr gym_context))
     = Inr (PStr (u '' 6am ''))
   \<and> field (json (fst (ask_question stub_py (initialized azure_ok) (Inr (PDict gym_fields))))) ''answer''
     = Some (PStr (u '' 6am ''))
   \<and> strip (u '' 6am '') = u ''6am''
   \<and> field (json (fst (ask_question stub_py (initialized azure_ok) (Inr (PDict gym_fields))))) ''answer''
     \<noteq> Some (PStr (strip (u '' 6am '')))"
proof -
  have "chat_with_phi4_rag stub_py (initialized azure_ok) (PStr gym_question) (PStr gym_context) =
          (PStr (u '' 6am ''),
           [chat_args stub_py (initialized azure_ok) (PStr gym_question) (PStr gym_context)])"
    by (simp add: chat_with_phi4_rag_def)
  then show ?thesis
    unfolding ask_question_wellformed [OF gym_fields_simps]
    by (simp add: field_def strip_6am)
qed

subsection \<open>The uninitialised client\<close>

text \<open>
  C4, as the code has it. Called while the project client is uninitialised,
  \<open>chat_with_phi4_rag\<close> returns the string "Error: Azure AI Project client not
  initialized" and calls nothing; for a request with non-empty context and question
  strings \<open>ask_question\<close> returns it with status 200, as the answer of the body
  \<open>{answer, success: true}\<close>.
\<close>

theorem uninitialized_client_message:
  assumes "project_client g = None"
      and "map_of kvs (u ''context'') = Some (PStr c)" and "c \<noteq> []"
      and "map_of kvs (u ''question'') = Some (PStr q)" and "q \<noteq> []"
  shows "chat_with_phi4_rag env g user_question retrieved_doc =
           (PStr (u ''Error: Azure AI Project client not initialized''), [])
       \<and> ask_question env g (Inr (PDict kvs)) =
           (\<lparr>status = 200,
             json = JsonDumps (PDict
               [(u ''answer'', PStr (u ''Error: Azure AI Project client not initialized'')),
                (u ''success'', PBool True)])\<rparr>,
            [])"
proof -
  have *: "\<And>a b. chat_with_phi4_rag env g a b =
           (PStr (u ''Error: Azure AI Project client not initialized''), [])"
    using assms(1) by (simp add: chat_with_phi4_rag_def)
  show ?thesis
    unfolding ask_question_wellformed [OF assms(2-5)] by (simp add: *)
qed

theorem uninitialized_client_message_witness:
  "project_client uninitialized = None
   \<and> chat_with_phi4_rag stub_py uninitialized (PStr gym_question) (PStr gym_context) =
           (PStr (u ''Error: Azure AI Project client not initialized''), [])
   \<and> ask_question stub_py uninitialized (Inr (PDict gym_fields)) =
           (\<lparr>status = 200,
             json = JsonDumps (PDict
               [(u ''answer'', PStr (u ''Error: Azure AI Project client not initialized'')),
                (u ''success'', PBool True)])\<rparr>,
            [])"
proof -
  have h1: "project_client uninitialized = None"
    by simp
  show ?thesis
    using h1 uninitialized_client_message [OF h1 gym_fields_simps] by (rule conjI)
qed

text \<open>
  C4 as stated fails: with the client uninitialised, the response to the gym request has
  status 200, no error field, and \<open>success: true\<close>.
\<close>

theorem uninitialized_client_counterexample:
  "project_client uninitialized = None
   \<and> status (fst (ask_question stub_py uninitialized (Inr (PDict gym_fields)))) = 200
   \<and> \<not> has_field (json (fst (ask_question stub_py uninitialized (Inr (PDict gym_fields))))) ''error''
   \<and> field (json (fst (ask_question stub_py uninitialized (Inr (PDict gym_fields))))) ''success''
       = Some (PBool True)"
  unfolding ask_question_wellformed [OF gym_fields_simps]
  by (simp add: has_field_def field_def)

subsection \<open>The prompt\<close>

text \<open>
  C5. For a request with non-empty context and question strings, the one call made to the
  model carries a prompt with the context text, the question text and the fallback
  instruction. In the function variant the prompt is the \<open>inputText\<close>, which has all
  three as segments; in the process variant it is the pair of messages: the system
  message has the context and the instruction as segments, the user message is the
  question.
\<close>

theorem prompt_contains_context_and_question:
  assumes "boto3_client lenv = Inr bedrock"
      and "event_get event ''httpMethod'' PNone \<noteq> PStr (u ''OPTIONS'')"
      and "json_loads (py lenv) (event_get event ''body'' (PStr (u ''{}''))) = Inr (PDict kvs)"
      and "map_of kvs (u ''context'') = Some (PStr c)" and "c \<noteq> []"
      and "map_of kvs (u ''question'') = Some (PStr q)" and "q \<noteq> []"
      and "project_client g = Some client"
  shows "(\<exists>a p. snd (lambda_handler lenv event) = [a]
            \<and> field (req_body a) ''inputText'' = Some (PStr p)
            \<and> sublist c p \<and> sublist q p \<and> sublist (u fallback_phrase) p)
       \<and> (\<exists>a p. snd (ask_question env g (Inr (PDict kvs))) = [a]
            \<and> messages a = [SystemMessage p, UserMessage (PStr q)]
            \<and> sublist c p \<and> sublist (u fallback_instruction) p)"
proof (rule conjI)
  let ?a = "invoke_args (py lenv) (PStr c) (PStr q)"
  have "snd (lambda_handler lenv event) = [?a]"
    unfolding lambda_handler_wellformed [OF assms(1-7)]
    by (simp split: sum.splits)
  then show "\<exists>a p. snd (lambda_handler lenv event) = [a]
            \<and> field (req_body a) ''inputText'' = Some (PStr p)
            \<and> sublist c p \<and> sublist q p \<and> sublist (u fallback_phrase) p"
    using prompt_data_contains [where c = c and q = q and env = "py lenv"] by simp
next
  let ?a = "chat_args env g (PStr q) (PStr c)"
  have "snd (chat_with_phi4_rag env g (PStr q) (PStr c)) = [?a]"
    using assms(8) by (simp add: chat_with_phi4_rag_def split: sum.splits)
  then have "snd (ask_question env g (Inr (PDict kvs))) = [?a]"
    unfolding ask_question_wellformed [OF assms(4-7)] by simp
  moreover have "messages ?a = [SystemMessage (system_prompt env (PStr c)), UserMessage (PStr q)]"
    by (simp add: chat_args_def)
  ultimately show "\<exists>a p. snd (ask_question env g (Inr (PDict kvs))) = [a]
            \<and> messages a = [SystemMessage p, UserMessage (PStr q)]
            \<and> sublist c p \<and> sublist (u fallback_instruction) p"
    using system_prompt_contains [where c = c and env = env] by simp
qed

theorem prompt_contains_context_and_question_witness:
  "(\<exists>a p. snd (lambda_handler (stub_lambda bedrock_ok) (post_event gym_json)) = [a]
            \<and> field (req_body a) ''inputText'' = Some (PStr p)
            \<and> sublist gym_context p \<and> sublist gym_question p \<and> sublist (u fallback_phrase) p)
       \<and> (\<exists>a p. snd (ask_question stub_py (initialized azure_ok) (Inr (PDict gym_fields))) = [a]
            \<and> messages a = [SystemMessage p, UserMessage (PStr gym_question)]
            \<and> sublist gym_context p \<and> sublist (u fallback_instruction) p)"
proof -
  have h1: "boto3_client (stub_lambda bedrock_ok) = Inr bedrock_ok"
    by simp
  have h2: "event_get (post_event gym_json) ''httpMethod'' PNone \<noteq> PStr (u ''OPTIONS'')"
    by simp
  have h3: "json_loads (py (stub_lambda bedrock_ok))
              (event_get (post_event gym_json) ''body'' (PStr (u ''{}''))) = Inr (PDict gym_fields)"
    by simp
  have h8: "project_client (initialized azure_ok) = Some azure_ok"
    by simp
  show ?thesis
    by (rule prompt_contains_context_and_question [OF h1 h2 h3 gym_fields_simps h8])
qed

subsection \<open>The preflight and the CORS headers\<close>

text \<open>
  C6. An event whose httpMethod is OPTIONS is answered with status 200, the CORS headers
  and the empty body, and no call to the client. The result depends neither on the
  event's body nor on \<open>json.loads\<close>: nothing is parsed or validated.
\<close>

theorem options_preflight:
  assumes "boto3_client lenv = Inr bedrock"
      and "event_get event ''httpMethod'' PNone = PStr (u ''OPTIONS'')"
  shows "lambda_handler lenv event =
           (Inr \<lparr>statusCode = 200, headers = cors_preflight_headers, body = Text []\<rparr>, [])
         \<and> map_of cors_preflight_headers acao = Some (u ''*'')"
  using assms unfolding lambda_handler_def by (simp add: acao_preflight)

theorem options_preflight_witness:
  "event_get ((u ''body'', not_json) # options_event) ''httpMethod'' PNone = PStr (u ''OPTIONS'')
   \<and> (lambda_handler (stub_lambda bedrock_failing) ((u ''body'', not_json) # options_event) =
           (Inr \<lparr>statusCode = 200, headers = cors_preflight_headers, body = Text []\<rparr>, [])
         \<and> map_of cors_preflight_headers acao = Some (u ''*''))"
proof -
  have h1: "boto3_client (stub_lambda bedrock_failing) = Inr bedrock_failing"
    by simp
  have h2: "event_get ((u ''body'', not_json) # options_event) ''httpMethod'' PNone
              = PStr (u ''OPTIONS'')"
    by (simp add: event_get_def options_event_def)
  show ?thesis
    using h2 options_preflight [OF h1 h2] by (rule conjI)
qed

text \<open>
  C7. Every response the handler of the function variant returns, on whichever path
  (preflight, 400, 200 or 500), has the header Access-Control-Allow-Origin.
\<close>

theorem every_response_has_cors:
  assumes "lambda_handler lenv event = (Inr resp, calls)"
  shows "map_of (headers resp) acao = Some (u ''*'')"
  using assms unfolding lambda_handler_def
  by (auto split: sum.splits if_splits prod.splits dest!: lambda_try_Inr
      simp: acao_json acao_preflight)

theorem every_response_has_cors_witness:
  "lambda_handler (stub_lambda bedrock_failing) (post_event not_json) =
     (Inr \<lparr>statusCode = 500, headers = cors_json_headers,
           body = JsonDumps (PDict [(u ''error'',
                    PStr (u ''Expecting value: line 1 column 1 (char 0)''))])\<rparr>, [])
   \<and> map_of (headers \<lparr>statusCode = 500, headers = cors_json_headers,
           body = JsonDumps (PDict [(u ''error'',
                    PStr (u ''Expecting value: line 1 column 1 (char 0)''))])\<rparr>) acao = Some (u ''*'')"
  using invalid_body_response every_response_has_cors [OF invalid_body_response] by (rule conjI)

subsection \<open>Failure of the text extraction\<close>

text \<open>
  C8, as the code has it. For an upload under the field \<open>file\<close> whose name is not empty
  and ends in \<open>.pdf\<close> and whose bytes can be read, when the extraction raises \<open>e\<close>,
  \<open>extract_text_from_pdf\<close> catches it and \<open>upload_pdf\<close> returns status 200 with the body
  \<open>{success: true, text: "Error extracting text: " + str(e)}\<close>.
\<close>

theorem extraction_failure_returned_as_text:
  assumes "map_of files (u ''file'') = Some file"
      and "filename file \<noteq> []"
      and "allowed_file env (filename file)"
      and "read file = Inr bytes"
      and "parse_pdf env bytes = Inl e"
  shows "upload_pdf env files =
           \<lparr>status = 200,
            json = JsonDumps (PDict
              [(u ''success'', PBool True),
               (u ''text'', PStr (u ''Error extracting text: '' @ exn_str e))])\<rparr>"
  using assms by (simp add: upload_pdf_def extract_text_from_pdf_def)

theorem extraction_failure_returned_as_text_witness:
  "parse_pdf stub_py (u ''not a pdf'') = Inl (Exn ''PdfReadError'' (u ''EOF marker not found''))
   \<and> upload_pdf stub_py report_upload =
           \<lparr>status = 200,
            json = JsonDumps (PDict
              [(u ''success'', PBool True),
               (u ''text'', PStr (u ''Error extracting text: ''
                                  @ exn_str (Exn ''PdfReadError'' (u ''EOF marker not found''))))])\<rparr>"
  using report_upload_simps(5) extraction_failure_returned_as_text [OF report_upload_simps]
  by (rule conjI)

text \<open>
  C8 as stated fails: the upload of \<open>report.pdf\<close> whose bytes the reader rejects is
  answered with status 200 and a body without an error field.
\<close>

theorem extraction_failure_counterexample:
  "parse_pdf stub_py (u ''not a pdf'') = Inl (Exn ''PdfReadError'' (u ''EOF marker not found''))
   \<and> status (upload_pdf stub_py report_upload) = 200
   \<and> \<not> has_field (json (upload_pdf stub_py report_upload)) ''error''"
  by (simp add: upload_pdf_def report_upload_def allowed_report extract_text_from_pdf_def
      stub_parse_pdf has_field_def)

subsection \<open>The shape of the body\<close>

text \<open>
  C9. Every response to the ask-question operation, in both variants, has a body with
  exactly one of the fields answer and error: the answer with status 200, the error
  otherwise. In the process variant this holds whatever \<open>request.get_json()\<close> does; in
  the function variant, for every event that is not the preflight, handled with a
  constructed client.
\<close>

theorem one_shape_per_response:
  assumes "boto3_client lenv = Inr bedrock"
      and "event_get event ''httpMethod'' PNone \<noteq> PStr (u ''OPTIONS'')"
  shows "((has_field (json (fst (ask_question env g get_json))) ''answer''
            \<longleftrightarrow> \<not> has_field (json (fst (ask_question env g get_json))) ''error'')
          \<and> (has_field (json (fst (ask_question env g get_json))) ''answer''
            \<longleftrightarrow> status (fst (ask_question env g get_json)) = 200))
       \<and> (\<exists>resp calls. lambda_handler lenv event = (Inr resp, calls)
           \<and> (has_field (body resp) ''answer'' \<longleftrightarrow> \<not> has_field (body resp) ''error'')
           \<and> (has_field (body resp) ''answer'' \<longleftrightarrow> statusCode resp = 200))"
  using ask_question_shape lambda_handler_shape [OF assms] by (rule conjI)

theorem one_shape_per_response_witness:
  "((has_field (json (fst (ask_question stub_py uninitialized
        (Inl (Exn ''BadRequest'' (u ''400 Bad Request'')))))) ''answer''
      \<longleftrightarrow> \<not> has_field (json (fst (ask_question stub_py uninitialized
        (Inl (Exn ''BadRequest'' (u ''400 Bad Request'')))))) ''error'')
    \<and> (has_field (json (fst (ask_question stub_py uninitialized
        (Inl (Exn ''BadRequest'' (u ''400 Bad Request'')))))) ''answer''
      \<longleftrightarrow> status (fst (ask_question stub_py uninitialized
        (Inl (Exn ''BadRequest'' (u ''400 Bad Request''))))) = 200))
   \<and> (\<exists>resp calls. lambda_handler (stub_lambda bedrock_ok) (post_event gym_json) = (Inr resp, calls)
       \<and> (has_field (body resp) ''answer'' \<longleftrightarrow> \<not> has_field (body resp) ''error'')
       \<and> (has_field (body resp) ''answer'' \<longleftrightarrow> statusCode resp = 200))"
proof -
  have h1: "boto3_client (stub_lambda bedrock_ok) = Inr bedrock_ok"
    by simp
  have h2: "event_get (post_event gym_json) ''httpMethod'' PNone \<noteq> PStr (u ''OPTIONS'')"
    by simp
  show ?thesis
    by (rule one_shape_per_response [OF h1 h2])
qed

subsection \<open>A body that is not JSON, and no body\<close>

text \<open>
  C10. In the function variant, an event that is not the preflight and whose body is
  present but makes \<open>json.loads\<close> raise \<open>e\<close> is answered with status 500, the CORS headers
  and the body \<open>{error: str(e)}\<close>; an event with no body key is parsed as the empty
  object and answered with status 400 and the missing-field error. Neither calls the
  client.
\<close>

theorem invalid_json_body_is_500:
  assumes "boto3_client lenv = Inr bedrock"
      and "event_get event ''httpMethod'' PNone \<noteq> PStr (u ''OPTIONS'')"
      and "map_of event (u ''body'') = Some b"
      and "json_loads (py lenv) b = Inl e"
      and "event_get event' ''httpMethod'' PNone \<noteq> PStr (u ''OPTIONS'')"
      and "map_of event' (u ''body'') = None"
      and "json_loads (py lenv) (PStr (u ''{}'')) = Inr (PDict [])"
  shows "lambda_handler lenv event =
           (Inr \<lparr>statusCode = 500, headers = cors_json_headers,
                 body = JsonDumps (PDict [(u ''error'', PStr (exn_str e))])\<rparr>,
            [])
       \<and> lambda_handler lenv event' =
           (Inr \<lparr>statusCode = 400, headers = cors_json_headers,
                 body = JsonDumps (PDict [(u ''error'', PStr (u ''Missing context or question''))])\<rparr>,
            [])"
proof (rule conjI)
  have "event_get event ''body'' (PStr (u ''{}'')) = b"
    using assms(3) by (simp add: event_get_def)
  then have "lambda_try (py lenv) bedrock event = (Inl e, [])"
    using assms(4) by (simp add: lambda_try_def)
  then show "lambda_handler lenv event =
           (Inr \<lparr>statusCode = 500, headers = cors_json_headers,
                 body = JsonDumps (PDict [(u ''error'', PStr (exn_str e))])\<rparr>,
            [])"
    using assms(1,2) by (simp add: lambda_handler_def)
next
  have "event_get event' ''body'' (PStr (u ''{}'')) = PStr (u ''{}'')"
    using assms(6) by (simp add: event_get_def)
  then have "json_loads (py lenv) (event_get event' ''body'' (PStr (u ''{}''))) = Inr (PDict [])"
    using assms(7) by simp
  from lambda_handler_falsy [OF assms(1,5) this, of "PStr []" "PStr []"]
  show "lambda_handler lenv event' =
           (Inr \<lparr>statusCode = 400, headers = cors_json_headers,
                 body = JsonDumps (PDict [(u ''error'', PStr (u ''Missing context or question''))])\<rparr>,
            [])"
    by simp
qed

theorem invalid_json_body_is_500_witness:
  "json_loads (py (stub_lambda bedrock_ok)) not_json =
     Inl (Exn ''JSONDecodeError'' (u ''Expecting value: line 1 column 1 (char 0)''))
   \<and> (lambda_handler (stub_lambda bedrock_ok) (post_event not_json) =
           (Inr \<lparr>statusCode = 500, headers = cors_json_headers,
                 body = JsonDumps (PDict [(u ''error'',
                   PStr (exn_str (Exn ''JSONDecodeError'' (u ''Expecting value: line 1 column 1 (char 0)''))))])\<rparr>,
            [])
       \<and> lambda_handler (stub_lambda bedrock_ok) no_body_event =
           (Inr \<lparr>statusCode = 400, headers = cors_json_headers,
                 body = JsonDumps (PDict [(u ''error'', PStr (u ''Missing context or question''))])\<rparr>,
            []))"
proof -
  have h1: "boto3_client (stub_lambda bedrock_ok) = Inr bedrock_ok"
    by simp
  have h2: "event_get (post_event not_json) ''httpMethod'' PNone \<noteq> PStr (u ''OPTIONS'')"
    by simp
  have h3: "map_of (post_event not_json) (u ''body'') = Some not_json"
    by (simp add: post_event_def)
  have h4: "json_loads (py (stub_lambda bedrock_ok)) not_json =
     Inl (Exn ''JSONDecodeError'' (u ''Expecting value: line 1 column 1 (char 0)''))"
    by simp
  have h5: "event_get no_body_event ''httpMethod'' PNone \<noteq> PStr (u ''OPTIONS'')"
    by simp
  have h6: "map_of no_body_event (u ''body'') = None"
    by (simp add: no_body_event_def)
  have h7: "json_loads (py (stub_lambda bedrock_ok)) (PStr (u ''{}'')) = Inr (PDict [])"
    by simp
  show ?thesis
    using h4 invalid_json_body_is_500 [OF h1 h2 h3 h4 h5 h6 h7] by (rule conjI)
qed

end
